theory Spec2Isabelle
  imports Main
begin

section \<open>JavaScript values used by the configuration code\<close>

text \<open>
  A property of a JavaScript object that may be missing (\<open>undefined\<close>), \<open>null\<close>
  or present. The hooks below only ever test such a value for being nullish
  (\<open>?.\<close>, \<open>??\<close>) or for being truthy.
\<close>

datatype 'a nullable = Undefined | Null | Value 'a

text \<open>Optional chaining \<open>x?.f\<close>: \<open>undefined\<close> when \<open>x\<close> is nullish.\<close>

fun opt_chain :: "'a nullable \<Rightarrow> ('a \<Rightarrow> 'b nullable) \<Rightarrow> 'b nullable" where
  "opt_chain (Value v) f = f v"
| "opt_chain Null f = Undefined"
| "opt_chain Undefined f = Undefined"

text \<open>Nullish coalescing \<open>a ?? b\<close>.\<close>

fun coalesce :: "'a nullable \<Rightarrow> 'a nullable \<Rightarrow> 'a nullable" where
  "coalesce (Value a) b = Value a"
| "coalesce Null b = b"
| "coalesce Undefined b = b"

text \<open>Truthiness: an object is always truthy, a boolean is its own value, a string is
  truthy unless it is empty; \<open>null\<close> and \<open>undefined\<close> are falsy.\<close>

fun truthy_obj :: "'a nullable \<Rightarrow> bool" where
  "truthy_obj (Value v) = True"
| "truthy_obj Null = False"
| "truthy_obj Undefined = False"

fun truthy_bool :: "bool nullable \<Rightarrow> bool" where
  "truthy_bool (Value b) = b"
| "truthy_bool Null = False"
| "truthy_bool Undefined = False"

fun truthy_str :: "string option \<Rightarrow> bool" where
  "truthy_str (Some s) = (s \<noteq> [])"
| "truthy_str None = False"

section \<open>The Media list (relationship union example)\<close>

subsection \<open>Mutation inputs\<close>

text \<open>\<open>{ id: ... }\<close>, the unique filter given to \<open>connect\<close>.\<close>

datatype where_unique = WhereId string

text \<open>The scalar fields given to a nested \<open>create\<close>.\<close>

type_synonym create_data = "(string \<times> string) list"

text \<open>
  The input of a to-one relationship field. A create input has no \<open>disconnect\<close> key,
  which reads as \<open>Undefined\<close>.
\<close>

record rel_input =
  connect :: "where_unique nullable"
  create :: "create_data nullable"
  disconnect :: "bool nullable"

text \<open>
  The data of a Media mutation: the two relationship fields and the rest of the
  object, which for this list is the \<open>description\<close> text field (\<open>label\<close> is virtual
  and has no input). A key that is absent from an object reads as \<open>Undefined\<close>.
\<close>

record media_data =
  post :: "rel_input nullable"
  link :: "rel_input nullable"
  description :: "string nullable"

subsection \<open>Validation hooks\<close>

text \<open>
  \<open>addValidationError\<close> is a callback of the framework that records a message; the
  messages recorded so far are passed through the hooks as explicit state.
\<close>

definition addValidationError :: "string \<Rightarrow> string list \<Rightarrow> string list" where
  "addValidationError msg errors = errors @ [msg]"

text \<open>\<open>x?.connect ?? x?.create\<close>; the sum type is the union of the two object types.\<close>

definition connect_or_create :: "rel_input nullable \<Rightarrow> (where_unique + create_data) nullable" where
  "connect_or_create x =
     coalesce (map_nullable Inl (opt_chain x connect)) (map_nullable Inr (opt_chain x create))"

text \<open>\<open>hooks.validate.create\<close>\<close>

definition validate_create :: "media_data \<Rightarrow> string list \<Rightarrow> string list" where
  "validate_create inputData errors =
     (let values = filter (\<lambda>x. truthy_obj (connect_or_create x)) [post inputData, link inputData]
      in if length values = 0
           then addValidationError ''A media type relationship is required'' errors
         else if length values > 1
           then addValidationError ''Only one media type relationship can be selected'' errors
         else errors)"

text \<open>\<open>hooks.validate.update\<close>\<close>

definition validate_update :: "media_data \<Rightarrow> string list \<Rightarrow> string list" where
  "validate_update inputData errors =
     (if list_ex (\<lambda>x. truthy_bool (opt_chain x disconnect)) [post inputData, link inputData]
        then addValidationError ''Cannot change media type relationship type'' errors
      else
        (let values = filter (\<lambda>x. truthy_obj (connect_or_create x)) [post inputData, link inputData]
         in if length values > 1
              then addValidationError ''Only one media type relationship can be selected'' errors
            else errors))"

subsection \<open>Input resolution hook\<close>

datatype rel_key = PostKey | LinkKey

text \<open>\<open>{ disconnect: true }\<close>\<close>

definition disconnect_true :: rel_input where
  "disconnect_true = \<lparr>connect = Undefined, create = Undefined, disconnect = Value True\<rparr>"

text \<open>
  \<open>{ ...rest, post: { disconnect: true }, link: { disconnect: true }, [key]: value }\<close>:
  the computed key comes last and overrides the literal one.
\<close>

fun disconnect_others :: "string nullable \<Rightarrow> rel_key \<Rightarrow> rel_input \<Rightarrow> media_data" where
  "disconnect_others rest PostKey v =
     \<lparr>post = Value v, link = Value disconnect_true, description = rest\<rparr>"
| "disconnect_others rest LinkKey v =
     \<lparr>post = Value disconnect_true, link = Value v, description = rest\<rparr>"

text \<open>
  The loop over \<open>Object.entries({ post, link })\<close>. Falling out of the loop returns
  \<open>rest\<close>, an object without the keys \<open>post\<close> and \<open>link\<close>.
\<close>

fun resolve_entries :: "string nullable \<Rightarrow> (rel_key \<times> rel_input nullable) list \<Rightarrow> media_data" where
  "resolve_entries rest [] = \<lparr>post = Undefined, link = Undefined, description = rest\<rparr>"
| "resolve_entries rest ((key, Undefined) # es) = resolve_entries rest es"
| "resolve_entries rest ((key, Null) # es) = resolve_entries rest es"
| "resolve_entries rest ((key, Value v) # es) =
     (if truthy_bool (disconnect v) then resolve_entries rest es
      else disconnect_others rest key v)"

text \<open>\<open>hooks.resolveInput.update\<close>\<close>

definition resolveInput_update :: "media_data \<Rightarrow> media_data" where
  "resolveInput_update resolvedData =
     resolve_entries (description resolvedData)
       [(PostKey, post resolvedData), (LinkKey, link resolvedData)]"

subsection \<open>What the hooks' inputs say, in the words of the specification\<close>

text \<open>A relationship input carries a connect or create operation.\<close>

fun supplies :: "rel_input nullable \<Rightarrow> bool" where
  "supplies (Value r) = (truthy_obj (connect r) \<or> truthy_obj (create r))"
| "supplies Null = False"
| "supplies Undefined = False"

text \<open>A relationship input carries a disconnect operation (\<open>disconnect: true\<close>).\<close>

fun carries_disconnect :: "rel_input nullable \<Rightarrow> bool" where
  "carries_disconnect (Value r) = (disconnect r = Value True)"
| "carries_disconnect Null = False"
| "carries_disconnect Undefined = False"


subsection \<open>The framework around the hooks\<close>

text \<open>A stored item: its columns by name; a column that is \<open>null\<close> is \<open>None\<close>.\<close>

type_synonym item = "string \<rightharpoonup> string"

datatype 'a mutation_result = Created 'a | ValidationFailure "string list"

text \<open>
  Modelled from the spec: the framework's create mutation, which is not in this
  repository's example sources. The spec gives the semantics of \<open>addValidationError\<close>
  as "abort mutation, return structured GraphQL errors": when the validate hook has
  recorded a message, nothing is written and the messages are the result. The write
  itself is the parameter \<open>persist\<close>.
\<close>

definition createOne_Media ::
  "(media_data \<Rightarrow> 'db \<Rightarrow> 'db \<times> item) \<Rightarrow> media_data \<Rightarrow> 'db \<Rightarrow> 'db \<times> item mutation_result" where
  "createOne_Media persist inputData db =
     (case validate_create inputData [] of
        [] \<Rightarrow> (case persist inputData db of (db', it) \<Rightarrow> (db', Created it))
      | e # es \<Rightarrow> (db, ValidationFailure (e # es)))"

text \<open>
  Modelled from the spec: the framework's application of a to-one relationship input
  to the stored foreign key is not in this repository's example sources, and the spec
  leaves it to the framework. The model gives the three operations their plain
  meaning: \<open>connect\<close> stores the given id, \<open>create\<close> stores the id of the item it
  makes (the parameter \<open>new_id\<close>), \<open>disconnect: true\<close> clears the key, and an input
  without an operation leaves the key as it is.
\<close>

fun apply_rel :: "(create_data \<Rightarrow> string) \<Rightarrow> rel_input nullable \<Rightarrow> string option \<Rightarrow> string option" where
  "apply_rel new_id (Value r) cur =
     (case connect r of
        Value (WhereId i) \<Rightarrow> Some i
      | _ \<Rightarrow> (case create r of
                Value c \<Rightarrow> Some (new_id c)
              | _ \<Rightarrow> if truthy_bool (disconnect r) then None else cur))"
| "apply_rel new_id Null cur = cur"
| "apply_rel new_id Undefined cur = cur"

definition apply_relationships ::
  "(create_data \<Rightarrow> string) \<Rightarrow> (create_data \<Rightarrow> string) \<Rightarrow> media_data \<Rightarrow> item \<Rightarrow> item" where
  "apply_relationships new_post new_link d it =
     it(''postId'' := apply_rel new_post (post d) (it ''postId''),
        ''linkId'' := apply_rel new_link (link d) (it ''linkId''))"


text \<open>
  Modelled from the spec: the framework's check of a to-one relationship input is not
  in this repository's example sources, and the spec leaves it to the framework. An
  input reaches the hooks of an update when it is \<open>null\<close> or \<open>undefined\<close>, or
  when it carries exactly one operation: a connect or create, or a disconnect. The
  framework refuses an input that carries both before the hooks run, and an object
  without an operation reaches them as \<open>undefined\<close>.
\<close>

fun one_operation :: "rel_input nullable \<Rightarrow> bool" where
  "one_operation (Value r) = (supplies (Value r) \<noteq> carries_disconnect (Value r))"
| "one_operation Null = True"
| "one_operation Undefined = True"

text \<open>
  Modelled from the spec: the framework's update mutation, which is not in this
  repository's example sources. As for a create, a message recorded by the validate
  hook aborts the mutation: the stored item stays as it is and the messages are the
  result. Otherwise the data returned by the resolveInput hook is applied to the item.
  The result is the stored item after the mutation and the messages.
\<close>

definition updateOne_Media ::
  "(create_data \<Rightarrow> string) \<Rightarrow> (create_data \<Rightarrow> string) \<Rightarrow> media_data \<Rightarrow> item \<Rightarrow> item \<times> string list" where
  "updateOne_Media new_post new_link inputData it =
     (case validate_update inputData [] of
        [] \<Rightarrow> (apply_relationships new_post new_link (resolveInput_update inputData) it, [])
      | e # es \<Rightarrow> (it, e # es))"

subsection \<open>The virtual field \<open>label\<close>\<close>

text \<open>
  \<open>context.db\<close>, as far as the resolver reads it: the two functions
  \<open>context.db.Post.findOne\<close> and \<open>context.db.Link.findOne\<close> of the framework, each
  from the id in \<open>{ where: { id } }\<close> to the item found, or \<open>null\<close>.
\<close>

record media_context =
  Post_findOne :: "string option \<Rightarrow> item option"
  Link_findOne :: "string option \<Rightarrow> item option"

text \<open>\<open>(...)?.title ?? '[missing]'\<close>\<close>

fun title_or_missing :: "item option \<Rightarrow> string" where
  "title_or_missing (Some r) = (case r ''title'' of Some t \<Rightarrow> t | None \<Rightarrow> ''[missing]'')"
| "title_or_missing None = ''[missing]''"

text \<open>The \<open>resolve\<close> function of \<open>Media.label\<close>.\<close>

definition resolve_label :: "item \<Rightarrow> media_context \<Rightarrow> string" where
  "resolve_label it context =
     (let postId = it ''postId''; linkId = it ''linkId''
      in if truthy_str postId then title_or_missing (Post_findOne context postId)
         else if truthy_str linkId then title_or_missing (Link_findOne context linkId)
         else ''?'')"

section \<open>Access control\<close>

subsection \<open>Filters\<close>

datatype str_filter = Equals string | IsIn "string list" | IsNot str_filter

datatype where_input = Everything | Field string str_filter | AND where_input where_input

datatype filter_result = FBool bool | FWhere where_input

datatype operation = Query | Create | Update | Delete

record something =
  something :: string

record session =
  listKey :: string
  itemId :: string
  data :: something

text \<open>The argument of an access function; the functions here read only \<open>session\<close>.\<close>

record access_args =
  session :: "session option"

record list_access =
  operation :: "access_args \<Rightarrow> bool"
  filter_query :: "access_args \<Rightarrow> filter_result"
  filter_update :: "access_args \<Rightarrow> filter_result"
  filter_delete :: "access_args \<Rightarrow> filter_result"

text \<open>
  Modelled from the spec: \<open>allowAll\<close> and \<open>unfiltered\<close> are imported from the
  framework's access module, which is not in this repository's example sources; by
  their names and their use they allow every operation and filter no row.
\<close>

definition allowAll :: "access_args \<Rightarrow> bool" where
  "allowAll args = True"

definition unfiltered :: "access_args \<Rightarrow> filter_result" where
  "unfiltered args = FBool True"

subsection \<open>The framework's filter merging\<close>

fun str_matches :: "str_filter \<Rightarrow> string \<Rightarrow> bool" where
  "str_matches (Equals v) s = (s = v)"
| "str_matches (IsIn vs) s = (s \<in> set vs)"
| "str_matches (IsNot f) s = (\<not> str_matches f s)"

fun where_matches :: "where_input \<Rightarrow> item \<Rightarrow> bool" where
  "where_matches Everything it = True"
| "where_matches (Field f c) it = (case it f of Some v \<Rightarrow> str_matches c v | None \<Rightarrow> False)"
| "where_matches (AND a b) it = (where_matches a it \<and> where_matches b it)"

fun access_filter :: "list_access \<Rightarrow> operation \<Rightarrow> access_args \<Rightarrow> filter_result" where
  "access_filter acc Query args = filter_query acc args"
| "access_filter acc Update args = filter_update acc args"
| "access_filter acc Delete args = filter_delete acc args"
| "access_filter acc Create args = FBool True"

text \<open>
  Modelled from the spec: the framework's access-control engine, which is not in this
  repository's example sources. The spec describes it as "merging an operation-level
  access check with a query-level row filter, and AND-ing an explicit where clause
  against an implicit access filter", and the access filter as a per-operation
  predicate "that the external framework merges with any caller-supplied query filter
  to restrict visible/mutable rows". \<open>None\<close> is: no row at all.
\<close>

definition merge_access ::
  "list_access \<Rightarrow> operation \<Rightarrow> access_args \<Rightarrow> where_input \<Rightarrow> where_input option" where
  "merge_access acc oper args w =
     (if \<not> operation acc args then None
      else (case access_filter acc oper args of
              FBool b \<Rightarrow> if b then Some w else None
            | FWhere a \<Rightarrow> Some (AND a w)))"

definition accessible ::
  "list_access \<Rightarrow> operation \<Rightarrow> access_args \<Rightarrow> where_input \<Rightarrow> item list \<Rightarrow> item list" where
  "accessible acc oper args w table =
     (case merge_access acc oper args w of
        None \<Rightarrow> []
      | Some m \<Rightarrow> filter (where_matches m) table)"

text \<open>The operation may touch this row.\<close>

definition permitted :: "list_access \<Rightarrow> operation \<Rightarrow> access_args \<Rightarrow> item \<Rightarrow> bool" where
  "permitted acc oper args it = (accessible acc oper args Everything [it] = [it])"

section \<open>The custom-session example\<close>

text \<open>\<open>Boolean(session)\<close>: a session object is truthy, a missing one is not.\<close>

definition hasSession :: "access_args \<Rightarrow> bool" where
  "hasSession args = (case session args of Some s \<Rightarrow> True | None \<Rightarrow> False)"

definition isSameUserFilter :: "access_args \<Rightarrow> filter_result" where
  "isSameUserFilter args =
     (case session args of
        None \<Rightarrow> FBool False
      | Some s \<Rightarrow> FWhere (Field ''id'' (Equals (itemId s))))"

text \<open>\<open>lists.User.access\<close>\<close>

definition User_access :: list_access where
  "User_access =
     \<lparr>operation = hasSession,
      filter_query = unfiltered,
      filter_update = isSameUserFilter,
      filter_delete = isSameUserFilter\<rparr>"

section \<open>The relationship filtering test\<close>

subsection \<open>Configuration\<close>

definition postNames :: "string list" where
  "postNames = [''Post 1'', ''Post 2'', ''Post 3'']"

record relationship_field =
  ref :: string
  many :: bool

definition UserToPostLimitedRead_posts :: relationship_field where
  "UserToPostLimitedRead_posts = \<lparr>ref = ''PostLimitedRead.author'', many = True\<rparr>"

definition PostLimitedRead_author :: relationship_field where
  "PostLimitedRead_author = \<lparr>ref = ''UserToPostLimitedRead.posts'', many = False\<rparr>"

text \<open>A filter that the configuration leaves out filters nothing.\<close>

definition UserToPostLimitedRead_access :: list_access where
  "UserToPostLimitedRead_access =
     \<lparr>operation = allowAll,
      filter_query = (\<lambda>args. FWhere (Field ''username'' (IsNot (Equals ''bad'')))),
      filter_update = unfiltered,
      filter_delete = unfiltered\<rparr>"

definition PostLimitedRead_access :: list_access where
  "PostLimitedRead_access =
     \<lparr>operation = allowAll,
      filter_query = (\<lambda>args. FWhere (Field ''name'' (IsIn [postNames ! 1]))),
      filter_update = unfiltered,
      filter_delete = unfiltered\<rparr>"

text \<open>
  The kind of a two-sided relationship, read from the \<open>many\<close> flags of its two
  fields: the left field's list is named first.
\<close>

datatype cardinality = OneToOne | OneToMany | ManyToOne | ManyToMany

definition cardinality :: "relationship_field \<Rightarrow> relationship_field \<Rightarrow> cardinality" where
  "cardinality left right =
     (if many left then (if many right then ManyToMany else OneToMany)
      else (if many right then ManyToOne else OneToOne))"

subsection \<open>The database behind the test\<close>

text \<open>
  The two tables and the number of items created so far. The posts' \<open>author\<close> is
  to-one, so the relationship is the column \<open>author\<close> of a post. The database gives
  each new item the id \<open>gen n\<close>, for a generator \<open>gen\<close> it owns.
\<close>

record database =
  UserToPostLimitedRead :: "item list"
  PostLimitedRead :: "item list"
  created :: nat

definition empty_database :: database where
  "empty_database = \<lparr>UserToPostLimitedRead = [], PostLimitedRead = [], created = 0\<rparr>"

text \<open>
  Modelled from the spec: the framework's \<open>createOne\<close>, \<open>findOne\<close> and relationship
  resolution for the two lists of the test, which are not in this repository's example
  sources. \<open>context.sudo()\<close> creates without access control; every read merges the
  list's query filter with the where clause it is given, through \<open>accessible\<close>.
\<close>

definition createOne_PostLimitedRead ::
  "(nat \<Rightarrow> string) \<Rightarrow> string \<Rightarrow> string \<Rightarrow> database \<Rightarrow> string \<times> database" where
  "createOne_PostLimitedRead gen name content db =
     (let i = gen (created db)
      in (i, db\<lparr>PostLimitedRead :=
                   PostLimitedRead db @ [[''id'' \<mapsto> i, ''name'' \<mapsto> name, ''content'' \<mapsto> content]],
                 created := Suc (created db)\<rparr>))"

fun connected :: "string list \<Rightarrow> item \<Rightarrow> bool" where
  "connected ids p = (case p ''id'' of Some i \<Rightarrow> i \<in> set ids | None \<Rightarrow> False)"

definition createOne_UserToPostLimitedRead ::
  "(nat \<Rightarrow> string) \<Rightarrow> string \<Rightarrow> string list \<Rightarrow> database \<Rightarrow> string \<times> database" where
  "createOne_UserToPostLimitedRead gen username connect_ids db =
     (let i = gen (created db)
      in (i, db\<lparr>UserToPostLimitedRead :=
                   UserToPostLimitedRead db @ [[''id'' \<mapsto> i, ''username'' \<mapsto> username]],
                 PostLimitedRead :=
                   map (\<lambda>p. if connected connect_ids p then p(''author'' \<mapsto> i) else p)
                     (PostLimitedRead db),
                 created := Suc (created db)\<rparr>))"

definition findOne_UserToPostLimitedRead :: "access_args \<Rightarrow> database \<Rightarrow> string \<Rightarrow> item option" where
  "findOne_UserToPostLimitedRead args db i =
     (case accessible UserToPostLimitedRead_access Query args (Field ''id'' (Equals i))
             (UserToPostLimitedRead db) of
        [] \<Rightarrow> None
      | u # us \<Rightarrow> Some u)"

text \<open>The posts connected to a user, before access control.\<close>

fun related_posts :: "database \<Rightarrow> item \<Rightarrow> item list" where
  "related_posts db u =
     (case u ''id'' of
        Some i \<Rightarrow> filter (\<lambda>p. p ''author'' = Some i) (PostLimitedRead db)
      | None \<Rightarrow> [])"

text \<open>The field \<open>posts\<close> of a user, with the where clause of the query if it has one.\<close>

fun explicit_where :: "where_input option \<Rightarrow> where_input" where
  "explicit_where (Some w) = w"
| "explicit_where None = Everything"

definition resolve_posts :: "access_args \<Rightarrow> database \<Rightarrow> item \<Rightarrow> where_input option \<Rightarrow> item list" where
  "resolve_posts args db u w =
     accessible PostLimitedRead_access Query args (explicit_where w) (related_posts db u)"

text \<open>The field \<open>author\<close> of a post.\<close>

fun resolve_author :: "access_args \<Rightarrow> database \<Rightarrow> item \<Rightarrow> item option" where
  "resolve_author args db p =
     (case p ''author'' of
        Some i \<Rightarrow> findOne_UserToPostLimitedRead args db i
      | None \<Rightarrow> None)"

subsection \<open>The two tests\<close>

text \<open>\<open>postNames.map(name => createOne({ data: { content, name } }))\<close>, ids in the order of the names.\<close>

fun create_posts ::
  "(nat \<Rightarrow> string) \<Rightarrow> (string \<times> string) list \<Rightarrow> database \<Rightarrow> string list \<times> database" where
  "create_posts gen [] db = ([], db)"
| "create_posts gen ((name, content) # rest) db =
     (case createOne_PostLimitedRead gen name content db of
        (i, db1) \<Rightarrow> (case create_posts gen rest db1 of (ids, db2) \<Rightarrow> (i # ids, db2)))"

text \<open>
  What both tests do first: three posts with sampled contents, then a user with a
  sampled username connected to \<open>postIds[1]\<close> and \<open>postIds[2]\<close>. The result is the
  database, \<open>postIds\<close> and \<open>user.id\<close>.
\<close>

definition setup_test ::
  "(nat \<Rightarrow> string) \<Rightarrow> string \<Rightarrow> string \<Rightarrow> string \<Rightarrow> string \<Rightarrow> database \<times> string list \<times> string" where
  "setup_test gen username c1 c2 c3 =
     (case create_posts gen (zip postNames [c1, c2, c3]) empty_database of
        (postIds, db) \<Rightarrow>
          (case createOne_UserToPostLimitedRead gen username [postIds ! 1, postIds ! 2] db of
             (uid, db') \<Rightarrow> (db', postIds, uid)))"

text \<open>The context of the test's queries: no session, not sudo.\<close>

definition test_args :: access_args where
  "test_args = \<lparr>session = None\<rparr>"

text \<open>\<open>findOne\<close> with the query \<open>id username posts { id author { id username } }\<close>.\<close>

definition query_implicit ::
  "database \<Rightarrow> string \<Rightarrow>
     (string option \<times> string option \<times>
       (string option \<times> (string option \<times> string option) option) list) option" where
  "query_implicit db uid =
     map_option
       (\<lambda>u. (u ''id'', u ''username'',
             map (\<lambda>p. (p ''id'',
                        map_option (\<lambda>a. (a ''id'', a ''username'')) (resolve_author test_args db p)))
               (resolve_posts test_args db u None)))
       (findOne_UserToPostLimitedRead test_args db uid)"

text \<open>\<open>findOne\<close> with the query \<open>id username posts(where: ...) { id }\<close>.\<close>

definition query_explicit ::
  "database \<Rightarrow> string \<Rightarrow> where_input \<Rightarrow>
     (string option \<times> string option \<times> string option list) option" where
  "query_explicit db uid w =
     map_option
       (\<lambda>u. (u ''id'', u ''username'',
             map (\<lambda>p. p ''id'') (resolve_posts test_args db u (Some w))))
       (findOne_UserToPostLimitedRead test_args db uid)"

text \<open>The item each test reads back.\<close>

definition test_implicit ::
  "(nat \<Rightarrow> string) \<Rightarrow> string \<Rightarrow> string \<Rightarrow> string \<Rightarrow> string \<Rightarrow>
     (string option \<times> string option \<times>
       (string option \<times> (string option \<times> string option) option) list) option" where
  "test_implicit gen username c1 c2 c3 =
     (case setup_test gen username c1 c2 c3 of
        (db, postIds, uid) \<Rightarrow> query_implicit db uid)"

definition test_explicit ::
  "(nat \<Rightarrow> string) \<Rightarrow> string \<Rightarrow> string \<Rightarrow> string \<Rightarrow> string \<Rightarrow>
     (string option \<times> string option \<times> string option list) option" where
  "test_explicit gen username c1 c2 c3 =
     (case setup_test gen username c1 c2 c3 of
        (db, postIds, uid) \<Rightarrow> query_explicit db uid (Field ''id'' (IsIn [postIds ! 2])))"

text \<open>The user's own row after the setup, as the database holds it.\<close>

definition test_user :: "string \<Rightarrow> string \<Rightarrow> item" where
  "test_user uid username = [''id'' \<mapsto> uid, ''username'' \<mapsto> username]"

text \<open>An id generator for concrete runs: \<open>x\<close>, \<open>xx\<close>, \<open>xxx\<close>, ...\<close>

definition unary_id :: "nat \<Rightarrow> string" where
  "unary_id n = replicate (Suc n) (CHR ''x'')"

section \<open>The generated relational schema and the lists of the examples\<close>

datatype ds_value = Env string | Lit string

text \<open>The block \<open>datasource postgresql\<close> of \<open>schema.prisma\<close>.\<close>

definition datasource_postgresql :: "(string \<times> ds_value) list" where
  "datasource_postgresql =
     [(''url'', Env ''DATABASE_URL''),
      (''shadowDatabaseUrl'', Env ''SHADOW_DATABASE_URL''),
      (''provider'', Lit ''postgresql'')]"

text \<open>The environment variables a block reads, with the setting each one gives.\<close>

fun env_reads :: "(string \<times> ds_value) list \<Rightarrow> (string \<times> string) list" where
  "env_reads [] = []"
| "env_reads ((k, Env v) # kvs) = (k, v) # env_reads kvs"
| "env_reads ((k, Lit v) # kvs) = env_reads kvs"

text \<open>The models of \<open>schema.prisma\<close>, in the file's order.\<close>

definition prisma_models :: "string list" where
  "prisma_models = [''Thing'', ''Todo'', ''User'', ''Settings'']"

text \<open>The keys of \<open>lists\<close> in the custom-session example's \<open>schema.ts\<close>.\<close>

definition session_example_lists :: "string list" where
  "session_example_lists = [''User'']"

text \<open>The keys of \<open>lists\<close> in the relationship union example.\<close>

definition union_example_lists :: "string list" where
  "union_example_lists = [''Post'', ''Link'', ''Media'']"

text \<open>The keys of \<open>lists\<close> in the configuration of the relationship filtering test.\<close>

definition filtering_test_lists :: "string list" where
  "filtering_test_lists = [''UserToPostLimitedRead'', ''PostLimitedRead'']"

definition data_model_names :: "string list" where
  "data_model_names =
     session_example_lists @ union_example_lists @ filtering_test_lists @ prisma_models"

section \<open>Properties of the Media hooks\<close>

subsection \<open>The hooks' tests, read as the operations an input carries\<close>

lemma supplies_iff: "truthy_obj (connect_or_create x) = supplies x"
proof (cases x)
  case (Value r)
  then show ?thesis
    by (cases "connect r"; cases "create r") (simp_all add: connect_or_create_def)
qed (simp_all add: connect_or_create_def)

lemma disconnect_iff: "truthy_bool (opt_chain x disconnect) = carries_disconnect x"
proof (cases x)
  case (Value r)
  then show ?thesis by (cases "disconnect r") auto
qed simp_all


lemma validate_create_cases:
  "validate_create d errs =
     (if \<not> supplies (post d) \<and> \<not> supplies (link d)
        then errs @ [''A media type relationship is required'']
      else if supplies (post d) \<and> supplies (link d)
        then errs @ [''Only one media type relationship can be selected'']
      else errs)"
  by (simp add: validate_create_def supplies_iff addValidationError_def)

lemma validate_update_cases:
  "validate_update d errs =
     (if carries_disconnect (post d) \<or> carries_disconnect (link d)
        then errs @ [''Cannot change media type relationship type'']
      else if supplies (post d) \<and> supplies (link d)
        then errs @ [''Only one media type relationship can be selected'']
      else errs)"
  by (simp add: validate_update_def supplies_iff disconnect_iff addValidationError_def)

subsection \<open>Creating a Media item\<close>

text \<open>
  Claim C3. For every Media create mutation whose input supplies neither a post nor a
  link relationship with a connect or create operation, the create validate hook calls
  \<open>addValidationError\<close> with the message "A media type relationship is required";
  the mutation is aborted, so the database is as before and no item is created, and its
  result is the error carrying that message.
\<close>

theorem media_create_requires_relationship:
  assumes "\<not> supplies (post inputData)" and "\<not> supplies (link inputData)"
  shows "validate_create inputData errors =
           addValidationError ''A media type relationship is required'' errors
         \<and> createOne_Media persist inputData db =
             (db, ValidationFailure [''A media type relationship is required''])"
  using assms by (simp add: validate_create_cases createOne_Media_def addValidationError_def)

text \<open>
  An input with \<open>post\<close> missing and \<open>link: null\<close> meets the hypotheses of C3: the hook
  records the message and a write that would have stored the item does not happen.
\<close>

theorem media_create_requires_relationship_witness:
  "\<not> supplies (post \<lparr>post = Undefined, link = Null, description = Value ''d''\<rparr>)
   \<and> \<not> supplies (link \<lparr>post = Undefined, link = Null, description = Value ''d''\<rparr>)
   \<and> validate_create \<lparr>post = Undefined, link = Null, description = Value ''d''\<rparr> [] =
       [''A media type relationship is required'']
   \<and> createOne_Media (\<lambda>d db. (d # db, Map.empty))
        \<lparr>post = Undefined, link = Null, description = Value ''d''\<rparr> [] =
       ([], ValidationFailure [''A media type relationship is required''])"
  using media_create_requires_relationship
    [of "\<lparr>post = Undefined, link = Null, description = Value ''d''\<rparr>" "[]"
        "\<lambda>d db. (d # db, Map.empty)" "[]"]
  by (simp add: addValidationError_def)

subsection \<open>Validating a Media update\<close>

text \<open>
  Claim C8. For every Media update mutation whose relationship inputs reach the hook,
  so that neither carries both a connect or create and a disconnect, the update
  validate hook rejects any input in which the post or the link relationship carries a
  disconnect operation, adding the validation error "Cannot change media type
  relationship type", and rejects any input in which both post and link carry a connect
  or create operation, adding the validation error "Only one media type relationship
  can be selected"; a rejected mutation leaves the item as it is. Inputs touching at
  most one relationship without a disconnect pass the hook without error.
\<close>

theorem media_update_validate:
  assumes "\<not> (supplies (post inputData) \<and> carries_disconnect (post inputData))"
    and "\<not> (supplies (link inputData) \<and> carries_disconnect (link inputData))"
  shows
    "(carries_disconnect (post inputData) \<or> carries_disconnect (link inputData) \<longrightarrow>
        validate_update inputData errors =
          addValidationError ''Cannot change media type relationship type'' errors
        \<and> updateOne_Media new_post new_link inputData it =
            (it, [''Cannot change media type relationship type'']))
     \<and> (supplies (post inputData) \<and> supplies (link inputData) \<longrightarrow>
        validate_update inputData errors =
          addValidationError ''Only one media type relationship can be selected'' errors
        \<and> updateOne_Media new_post new_link inputData it =
            (it, [''Only one media type relationship can be selected'']))
     \<and> (\<not> (supplies (post inputData) \<and> supplies (link inputData))
          \<and> \<not> carries_disconnect (post inputData) \<and> \<not> carries_disconnect (link inputData) \<longrightarrow>
        validate_update inputData errors = errors
        \<and> snd (updateOne_Media new_post new_link inputData it) = [])"
  using assms
  by (auto simp: validate_update_cases addValidationError_def updateOne_Media_def)

text \<open>
  Three inputs, one for each case of C8: a disconnect; a connect and a create on the
  two relationships; a single connect.
\<close>

theorem media_update_validate_witness:
  "carries_disconnect (post \<lparr>post = Value disconnect_true, link = Undefined, description = Undefined\<rparr>)
   \<and> \<not> supplies (Value disconnect_true)
   \<and> validate_update \<lparr>post = Value disconnect_true, link = Undefined, description = Undefined\<rparr> [] =
       [''Cannot change media type relationship type'']
   \<and> supplies (Value \<lparr>connect = Value (WhereId ''a''), create = Undefined, disconnect = Undefined\<rparr>)
   \<and> supplies (Value \<lparr>connect = Undefined, create = Value [(''title'', ''t'')], disconnect = Undefined\<rparr>)
   \<and> validate_update
        \<lparr>post = Value \<lparr>connect = Value (WhereId ''a''), create = Undefined, disconnect = Undefined\<rparr>,
         link = Value \<lparr>connect = Undefined, create = Value [(''title'', ''t'')], disconnect = Undefined\<rparr>,
         description = Undefined\<rparr> [] =
       [''Only one media type relationship can be selected'']
   \<and> updateOne_Media (\<lambda>c. ''n'') (\<lambda>c. ''n'')
        \<lparr>post = Value \<lparr>connect = Value (WhereId ''a''), create = Undefined, disconnect = Undefined\<rparr>,
         link = Value \<lparr>connect = Undefined, create = Value [(''title'', ''t'')], disconnect = Undefined\<rparr>,
         description = Undefined\<rparr> [''postId'' \<mapsto> ''p''] =
       ([''postId'' \<mapsto> ''p''], [''Only one media type relationship can be selected''])
   \<and> \<not> supplies (Undefined :: rel_input nullable)
   \<and> validate_update
        \<lparr>post = Value \<lparr>connect = Value (WhereId ''a''), create = Undefined, disconnect = Undefined\<rparr>,
         link = Undefined, description = Value ''d''\<rparr> [] = []"
  using
    media_update_validate
      [of "\<lparr>post = Value disconnect_true, link = Undefined, description = Undefined\<rparr>" "[]"
          "\<lambda>c. ''n''" "\<lambda>c. ''n''" "[''postId'' \<mapsto> ''p'']"]
    media_update_validate
      [of "\<lparr>post = Value \<lparr>connect = Value (WhereId ''a''), create = Undefined, disconnect = Undefined\<rparr>,
            link = Value \<lparr>connect = Undefined, create = Value [(''title'', ''t'')], disconnect = Undefined\<rparr>,
            description = Undefined\<rparr>" "[]" "\<lambda>c. ''n''" "\<lambda>c. ''n''" "[''postId'' \<mapsto> ''p'']"]
    media_update_validate
      [of "\<lparr>post = Value \<lparr>connect = Value (WhereId ''a''), create = Undefined, disconnect = Undefined\<rparr>,
            link = Undefined, description = Value ''d''\<rparr>" "[]"
          "\<lambda>c. ''n''" "\<lambda>c. ''n''" "[''postId'' \<mapsto> ''p'']"]
  by (simp add: addValidationError_def disconnect_true_def)

subsection \<open>Resolving the input of a Media update\<close>







lemma one_operation_supplies: "one_operation x \<Longrightarrow> supplies x \<Longrightarrow> \<not> carries_disconnect x"
  by (cases x) auto








subsection \<open>The label of a Media item\<close>

text \<open>
  Claim C5. The label of a Media item is not stored: its resolve function computes it
  from the item's \<open>postId\<close> and \<open>linkId\<close> when it is queried, and a stored column
  \<open>label\<close> would not be read. When \<open>postId\<close> is set, the label is the title of the
  Post that \<open>findOne\<close> gives for that id, or "[missing]" if it gives none, whatever
  \<open>linkId\<close> is, so the Post takes precedence. Otherwise, when \<open>linkId\<close> is set, it
  is the title of the Link with that id, or "[missing]" if there is none. Otherwise it
  is "?". A key is set when it is not null; an id is never the empty string.
\<close>

theorem media_label_resolves:
  "resolve_label (it(''label'' := stored)) context = resolve_label it context
   \<and> (it ''postId'' = Some i \<and> i \<noteq> [] \<and> Post_findOne context (Some i) = Some p
        \<and> p ''title'' = Some t \<longrightarrow>
      resolve_label it context = t)
   \<and> (it ''postId'' = Some i \<and> i \<noteq> [] \<and> Post_findOne context (Some i) = None \<longrightarrow>
      resolve_label it context = ''[missing]'')
   \<and> (it ''postId'' = None \<and> it ''linkId'' = Some j \<and> j \<noteq> []
        \<and> Link_findOne context (Some j) = Some l \<and> l ''title'' = Some t' \<longrightarrow>
      resolve_label it context = t')
   \<and> (it ''postId'' = None \<and> it ''linkId'' = Some j \<and> j \<noteq> []
        \<and> Link_findOne context (Some j) = None \<longrightarrow>
      resolve_label it context = ''[missing]'')
   \<and> (it ''postId'' = None \<and> it ''linkId'' = None \<longrightarrow> resolve_label it context = ''?'')"
  by (simp add: resolve_label_def)

text \<open>
  Five items, one for each case of C5: both keys set; a post that is gone; a link; a
  link that is gone; neither key.
\<close>

theorem media_label_resolves_witness:
  "resolve_label [''postId'' \<mapsto> ''p1'', ''linkId'' \<mapsto> ''l1'']
     \<lparr>Post_findOne = map_option (\<lambda>i. [''id'' \<mapsto> i, ''title'' \<mapsto> ''Hello'']),
      Link_findOne = map_option (\<lambda>i. [''id'' \<mapsto> i, ''title'' \<mapsto> ''Site''])\<rparr> = ''Hello''
   \<and> resolve_label [''postId'' \<mapsto> ''p2'', ''linkId'' \<mapsto> ''l1'']
     \<lparr>Post_findOne = (\<lambda>i. None),
      Link_findOne = map_option (\<lambda>i. [''id'' \<mapsto> i, ''title'' \<mapsto> ''Site''])\<rparr> = ''[missing]''
   \<and> resolve_label [''linkId'' \<mapsto> ''l1'']
     \<lparr>Post_findOne = map_option (\<lambda>i. [''id'' \<mapsto> i, ''title'' \<mapsto> ''Hello'']),
      Link_findOne = map_option (\<lambda>i. [''id'' \<mapsto> i, ''title'' \<mapsto> ''Site''])\<rparr> = ''Site''
   \<and> resolve_label [''linkId'' \<mapsto> ''l2'']
     \<lparr>Post_findOne = map_option (\<lambda>i. [''id'' \<mapsto> i, ''title'' \<mapsto> ''Hello'']),
      Link_findOne = (\<lambda>i. None)\<rparr> = ''[missing]''
   \<and> resolve_label Map.empty
     \<lparr>Post_findOne = map_option (\<lambda>i. [''id'' \<mapsto> i, ''title'' \<mapsto> ''Hello'']),
      Link_findOne = map_option (\<lambda>i. [''id'' \<mapsto> i, ''title'' \<mapsto> ''Site''])\<rparr> = ''?''"
  using
    media_label_resolves
      [of "[''postId'' \<mapsto> ''p1'', ''linkId'' \<mapsto> ''l1'']" "None"
          "\<lparr>Post_findOne = map_option (\<lambda>i. [''id'' \<mapsto> i, ''title'' \<mapsto> ''Hello'']),
            Link_findOne = map_option (\<lambda>i. [''id'' \<mapsto> i, ''title'' \<mapsto> ''Site''])\<rparr>"
          "''p1''" "[''id'' \<mapsto> ''p1'', ''title'' \<mapsto> ''Hello'']" "''Hello''"]
    media_label_resolves
      [of "[''postId'' \<mapsto> ''p2'', ''linkId'' \<mapsto> ''l1'']" "None"
          "\<lparr>Post_findOne = (\<lambda>i. None),
            Link_findOne = map_option (\<lambda>i. [''id'' \<mapsto> i, ''title'' \<mapsto> ''Site''])\<rparr>"
          "''p2''"]
    media_label_resolves
      [of "[''linkId'' \<mapsto> ''l1'']" "None"
          "\<lparr>Post_findOne = map_option (\<lambda>i. [''id'' \<mapsto> i, ''title'' \<mapsto> ''Hello'']),
            Link_findOne = map_option (\<lambda>i. [''id'' \<mapsto> i, ''title'' \<mapsto> ''Site''])\<rparr>"
          _ _ _ "''l1''" "[''id'' \<mapsto> ''l1'', ''title'' \<mapsto> ''Site'']" "''Site''"]
    media_label_resolves
      [of "[''linkId'' \<mapsto> ''l2'']" "None"
          "\<lparr>Post_findOne = map_option (\<lambda>i. [''id'' \<mapsto> i, ''title'' \<mapsto> ''Hello'']),
            Link_findOne = (\<lambda>i. None)\<rparr>"
          _ _ _ "''l2''"]
    media_label_resolves
      [of "Map.empty" "None"
          "\<lparr>Post_findOne = map_option (\<lambda>i. [''id'' \<mapsto> i, ''title'' \<mapsto> ''Hello'']),
            Link_findOne = map_option (\<lambda>i. [''id'' \<mapsto> i, ''title'' \<mapsto> ''Site''])\<rparr>"]
  by (simp add: resolve_label_def)

section \<open>Properties of the custom-session example\<close>

text \<open>
  Claim C10. Without a session \<open>hasSession\<close> is false, so every operation on User is
  denied and reaches no row. \<open>isSameUserFilter\<close> is false without a session and is
  the filter \<open>{ id: { equals: session.itemId } }\<close> with one, so update and delete
  reach exactly the rows whose id is the session's \<open>itemId\<close> (and that match the
  where clause given), while query with a session is not filtered.
\<close>

theorem custom_session_access:
  "hasSession \<lparr>session = None\<rparr> = False
   \<and> permitted User_access oper \<lparr>session = None\<rparr> it = False
   \<and> accessible User_access oper \<lparr>session = None\<rparr> w table = []
   \<and> isSameUserFilter \<lparr>session = None\<rparr> = FBool False
   \<and> isSameUserFilter \<lparr>session = Some s\<rparr> = FWhere (Field ''id'' (Equals (itemId s)))
   \<and> permitted User_access Update \<lparr>session = Some s\<rparr> it = (it ''id'' = Some (itemId s))
   \<and> permitted User_access Delete \<lparr>session = Some s\<rparr> it = (it ''id'' = Some (itemId s))
   \<and> accessible User_access Update \<lparr>session = Some s\<rparr> w table =
       filter (\<lambda>r. r ''id'' = Some (itemId s) \<and> where_matches w r) table
   \<and> accessible User_access Delete \<lparr>session = Some s\<rparr> w table =
       filter (\<lambda>r. r ''id'' = Some (itemId s) \<and> where_matches w r) table
   \<and> permitted User_access Query \<lparr>session = Some s\<rparr> it = True
   \<and> accessible User_access Query \<lparr>session = Some s\<rparr> w table = filter (where_matches w) table"
  by (auto simp: hasSession_def isSameUserFilter_def User_access_def permitted_def accessible_def
        merge_access_def unfiltered_def split: option.splits intro: filter_cong)

section \<open>Properties of the relationship filtering test\<close>

subsection \<open>The database after the setup\<close>

lemma inj_unary_id: "inj unary_id"
  by (simp add: inj_def unary_id_def)

lemma unary_id_values:
  "unary_id 0 = ''x''" "unary_id (Suc 0) = ''xx''" "unary_id 2 = ''xxx''" "unary_id 3 = ''xxxx''"
  by (simp_all add: unary_id_def numeral_2_eq_2 numeral_3_eq_3)

lemma setup_test_eq:
  assumes "inj gen"
  shows "setup_test gen username c1 c2 c3 =
    (\<lparr>UserToPostLimitedRead = [test_user (gen 3) username],
      PostLimitedRead =
        [[''id'' \<mapsto> gen 0, ''name'' \<mapsto> ''Post 1'', ''content'' \<mapsto> c1],
         [''id'' \<mapsto> gen 1, ''name'' \<mapsto> ''Post 2'', ''content'' \<mapsto> c2, ''author'' \<mapsto> gen 3],
         [''id'' \<mapsto> gen 2, ''name'' \<mapsto> ''Post 3'', ''content'' \<mapsto> c3, ''author'' \<mapsto> gen 3]],
      created = 4\<rparr>,
     [gen 0, gen 1, gen 2], gen 3)"
  using assms
  by (simp add: setup_test_def createOne_PostLimitedRead_def createOne_UserToPostLimitedRead_def
        postNames_def empty_database_def test_user_def inj_eq numeral_2_eq_2 numeral_3_eq_3
        Let_def)

subsection \<open>The relationship's fields\<close>

text \<open>
  Claim C4 as stated fails: \<open>posts\<close> is declared \<open>many: true\<close> but \<open>author\<close> is
  declared \<open>many: false\<close>, so the relationship is not many-to-many.
\<close>

theorem relationship_many_to_many_counterexample:
  "cardinality UserToPostLimitedRead_posts PostLimitedRead_author \<noteq> ManyToMany"
  by (simp add: cardinality_def UserToPostLimitedRead_posts_def PostLimitedRead_author_def)

text \<open>
  Claim C4, amended. The relationship exercised by the two access-control tests,
  between \<open>UserToPostLimitedRead.posts\<close> and \<open>PostLimitedRead.author\<close>, is a
  one-to-many relationship: the two fields refer to each other, a user has many posts
  and a post has one author.
\<close>

theorem relationship_one_to_many:
  "cardinality UserToPostLimitedRead_posts PostLimitedRead_author = OneToMany
   \<and> many UserToPostLimitedRead_posts = True
   \<and> many PostLimitedRead_author = False
   \<and> ref UserToPostLimitedRead_posts = ''PostLimitedRead.author''
   \<and> ref PostLimitedRead_author = ''UserToPostLimitedRead.posts''"
  by (simp add: cardinality_def UserToPostLimitedRead_posts_def PostLimitedRead_author_def)

subsection \<open>An explicit where clause\<close>

lemma where_matches_AND: "where_matches (AND a b) = (\<lambda>it. where_matches a it \<and> where_matches b it)"
  by (rule ext) simp

lemma resolve_posts_AND:
  "resolve_posts args db u (Some w) =
     filter (\<lambda>p. where_matches (Field ''name'' (IsIn [''Post 2''])) p \<and> where_matches w p)
       (related_posts db u)"
  by (simp add: resolve_posts_def accessible_def merge_access_def PostLimitedRead_access_def
        allowAll_def postNames_def where_matches_AND del: where_matches.simps)

text \<open>
  Claim C1. The posts of a user, queried with an explicit where clause, are the
  connected posts that satisfy both the query access filter of PostLimitedRead (name in
  ["Post 2"]) and the where clause. In the test the user is connected to "Post 2" and
  "Post 3" and the where clause \<open>id in [postIds[2]]\<close> selects "Post 3", which the
  access filter excludes, so the returned posts list is empty; the item read back is
  the user with \<open>posts: []\<close>, or nothing when the user's own list hides a user named
  "bad". The database's ids are taken to be distinct.
\<close>

theorem explicit_where_is_ANDed:
  "resolve_posts args db u (Some w) =
     filter (\<lambda>p. where_matches (Field ''name'' (IsIn [''Post 2''])) p \<and> where_matches w p)
       (related_posts db u)
   \<and> (inj gen \<longrightarrow>
        (case setup_test gen username c1 c2 c3 of
           (db, postIds, uid) \<Rightarrow>
             UserToPostLimitedRead db = [test_user uid username]
             \<and> map (\<lambda>p. p ''name'') (related_posts db (test_user uid username)) =
                 [Some ''Post 2'', Some ''Post 3'']
             \<and> map (\<lambda>p. p ''name'')
                 (filter (where_matches (Field ''id'' (IsIn [postIds ! 2])))
                   (related_posts db (test_user uid username))) = [Some ''Post 3'']
             \<and> resolve_posts test_args db (test_user uid username)
                 (Some (Field ''id'' (IsIn [postIds ! 2]))) = []
             \<and> query_explicit db uid (Field ''id'' (IsIn [postIds ! 2])) =
                 (if username = ''bad'' then None else Some (Some uid, Some username, []))))"
proof (intro conjI impI)
  show "resolve_posts args db u (Some w) =
     filter (\<lambda>p. where_matches (Field ''name'' (IsIn [''Post 2''])) p \<and> where_matches w p)
       (related_posts db u)"
    by (rule resolve_posts_AND)
next
  assume g: "inj gen"
  show "case setup_test gen username c1 c2 c3 of
           (db, postIds, uid) \<Rightarrow>
             UserToPostLimitedRead db = [test_user uid username]
             \<and> map (\<lambda>p. p ''name'') (related_posts db (test_user uid username)) =
                 [Some ''Post 2'', Some ''Post 3'']
             \<and> map (\<lambda>p. p ''name'')
                 (filter (where_matches (Field ''id'' (IsIn [postIds ! 2])))
                   (related_posts db (test_user uid username))) = [Some ''Post 3'']
             \<and> resolve_posts test_args db (test_user uid username)
                 (Some (Field ''id'' (IsIn [postIds ! 2]))) = []
             \<and> query_explicit db uid (Field ''id'' (IsIn [postIds ! 2])) =
                 (if username = ''bad'' then None else Some (Some uid, Some username, []))"
    using g
    by (simp add: setup_test_eq [OF g] resolve_posts_AND test_user_def inj_eq query_explicit_def
          findOne_UserToPostLimitedRead_def accessible_def merge_access_def
          UserToPostLimitedRead_access_def allowAll_def)
qed

text \<open>A run of the second test with the ids \<open>x\<close>, \<open>xx\<close>, \<open>xxx\<close>, \<open>xxxx\<close>.\<close>

theorem explicit_where_is_ANDed_witness:
  "inj unary_id
   \<and> resolve_posts test_args (fst (setup_test unary_id ''alice'' ''a'' ''b'' ''c''))
        (test_user ''xxxx'' ''alice'') (Some (Field ''id'' (IsIn [''xxx'']))) = []
   \<and> test_explicit unary_id ''alice'' ''a'' ''b'' ''c'' = Some (Some ''xxxx'', Some ''alice'', [])"
  using explicit_where_is_ANDed [of test_args empty_database Map.empty Everything unary_id
          "''alice''" "''a''" "''b''" "''c''"]
  by (simp add: inj_unary_id test_explicit_def setup_test_eq [OF inj_unary_id] unary_id_values)

subsection \<open>No where clause\<close>

text \<open>
  Claim C2 as stated fails for a user whose username is "bad": the query access filter
  of UserToPostLimitedRead hides that user, so the author of the one post returned
  resolves to null, and the query of the first test reads back no item at all.
\<close>

theorem implicit_access_filter_counterexample:
  "UserToPostLimitedRead (fst (setup_test unary_id ''bad'' ''a'' ''b'' ''c'')) =
     [test_user ''xxxx'' ''bad'']
   \<and> map (resolve_author test_args (fst (setup_test unary_id ''bad'' ''a'' ''b'' ''c'')))
        (resolve_posts test_args (fst (setup_test unary_id ''bad'' ''a'' ''b'' ''c''))
          (test_user ''xxxx'' ''bad'') None) = [None]
   \<and> test_implicit unary_id ''bad'' ''a'' ''b'' ''c'' = None"
  by (simp add: setup_test_eq [OF inj_unary_id] unary_id_values test_implicit_def
        query_implicit_def resolve_posts_def findOne_UserToPostLimitedRead_def accessible_def
        merge_access_def UserToPostLimitedRead_access_def PostLimitedRead_access_def allowAll_def
        postNames_def test_user_def)

text \<open>
  Claim C2, amended. Without a where clause the access filter alone restricts the
  visible rows: for a user connected to the posts named "Post 2" and "Post 3", the
  posts relationship returns exactly the single post that matches the query access
  filter of PostLimitedRead, name in ["Post 2"], which is \<open>postIds[1]\<close>; and when the
  user's username is not "bad", so that the user passes the query access filter of its
  own list, that post's author resolves to the user and the item read back is the one
  the test expects. The database's ids are taken to be distinct.
\<close>

theorem implicit_access_filter:
  "inj gen \<longrightarrow>
     (case setup_test gen username c1 c2 c3 of
        (db, postIds, uid) \<Rightarrow>
          UserToPostLimitedRead db = [test_user uid username]
          \<and> map (\<lambda>p. p ''name'') (related_posts db (test_user uid username)) =
              [Some ''Post 2'', Some ''Post 3'']
          \<and> map (\<lambda>p. (p ''id'', p ''name''))
              (resolve_posts test_args db (test_user uid username) None) =
              [(Some (postIds ! 1), Some ''Post 2'')]
          \<and> (username \<noteq> ''bad'' \<longrightarrow>
               map (resolve_author test_args db)
                 (resolve_posts test_args db (test_user uid username) None) =
                 [Some (test_user uid username)]
               \<and> query_implicit db uid =
                   Some (Some uid, Some username,
                         [(Some (postIds ! 1), Some (Some uid, Some username))])))"
proof
  assume g: "inj gen"
  show "case setup_test gen username c1 c2 c3 of
        (db, postIds, uid) \<Rightarrow>
          UserToPostLimitedRead db = [test_user uid username]
          \<and> map (\<lambda>p. p ''name'') (related_posts db (test_user uid username)) =
              [Some ''Post 2'', Some ''Post 3'']
          \<and> map (\<lambda>p. (p ''id'', p ''name''))
              (resolve_posts test_args db (test_user uid username) None) =
              [(Some (postIds ! 1), Some ''Post 2'')]
          \<and> (username \<noteq> ''bad'' \<longrightarrow>
               map (resolve_author test_args db)
                 (resolve_posts test_args db (test_user uid username) None) =
                 [Some (test_user uid username)]
               \<and> query_implicit db uid =
                   Some (Some uid, Some username,
                         [(Some (postIds ! 1), Some (Some uid, Some username))]))"
    using g
    by (simp add: setup_test_eq [OF g] inj_eq query_implicit_def resolve_posts_def
          findOne_UserToPostLimitedRead_def accessible_def merge_access_def
          UserToPostLimitedRead_access_def PostLimitedRead_access_def allowAll_def
          postNames_def test_user_def)
qed

text \<open>A run of the first test with the ids \<open>x\<close>, \<open>xx\<close>, \<open>xxx\<close>, \<open>xxxx\<close>.\<close>

theorem implicit_access_filter_witness:
  "inj unary_id \<and> ''alice'' \<noteq> ''bad''
   \<and> test_implicit unary_id ''alice'' ''a'' ''b'' ''c'' =
       Some (Some ''xxxx'', Some ''alice'', [(Some ''xx'', Some (Some ''xxxx'', Some ''alice''))])"
  using implicit_access_filter [of unary_id "''alice''" "''a''" "''b''" "''c''"]
  by (simp add: inj_unary_id test_implicit_def setup_test_eq [OF inj_unary_id] unary_id_values)

section \<open>Properties of the generated schema and of the lists\<close>

text \<open>
  Claim C6. The datasource block of the generated relational schema reads exactly two
  environment variables: \<open>DATABASE_URL\<close> as the database url and
  \<open>SHADOW_DATABASE_URL\<close> as the shadow database url.
\<close>

theorem datasource_env_reads:
  "env_reads datasource_postgresql =
     [(''url'', ''DATABASE_URL''), (''shadowDatabaseUrl'', ''SHADOW_DATABASE_URL'')]"
  by (simp add: datasource_postgresql_def)

text \<open>
  Claim C7. The lists of the configurations and the models of the generated schema
  contain an instance for each of the names User, Post, Link, Media, Thing, Todo and
  Settings: User is a list of the custom-session example, Post, Link and Media are the
  lists of the relationship union example, and Thing, Todo and Settings are models of
  the schema beside its own User.
\<close>

theorem data_model_instances:
  "''User'' \<in> set data_model_names
   \<and> ''Post'' \<in> set data_model_names
   \<and> ''Link'' \<in> set data_model_names
   \<and> ''Media'' \<in> set data_model_names
   \<and> ''Thing'' \<in> set data_model_names
   \<and> ''Todo'' \<in> set data_model_names
   \<and> ''Settings'' \<in> set data_model_names
   \<and> ''User'' \<in> set session_example_lists
   \<and> set [''Post'', ''Link'', ''Media''] = set union_example_lists
   \<and> set [''Thing'', ''Todo'', ''Settings''] = set prisma_models - {''User''}"
  by (auto simp: data_model_names_def session_example_lists_def union_example_lists_def
        filtering_test_lists_def prisma_models_def)

end
